theory Spec2Isabelle
  imports Main "HOL-Library.Word"
begin

unbundle bit_operations_syntax

section \<open>Diameter header codec (diam/header.go)\<close>

type_synonym u8 = "8 word"
type_synonym u32 = "32 word"

text \<open>Go's \<open>[3]uint8\<close>: a fixed array of three bytes, index 0 first.\<close>

type_synonym uint24 = "u8 \<times> u8 \<times> u8"

text \<open>
  Errors are values. \<open>EOF\<close> and \<open>ErrUnexpectedEOF\<close> are the two sentinels of Go's
  package io; \<open>IOFault\<close> is any other error a reader or writer hands back;
  \<open>InvalidVersion v\<close> is the value built by
  \<open>fmt.Errorf("Invalid diameter version %d", v)\<close> in ReadHeader; \<open>ErrorsNew s\<close> is
  \<open>errors.New(s)\<close>; \<open>DictFault\<close> is an error returned by the dictionary.
\<close>

datatype error =
    EOF
  | ErrUnexpectedEOF
  | IOFault string
  | InvalidVersion u8
  | ErrorsNew string
  | DictFault string

record Header =
  Version :: u8
  RawMessageLength :: uint24
  CommandFlags :: u8
  RawCommandCode :: uint24
  ApplicationId :: u32
  HopByHopId :: u32
  EndToEndId :: u32

record Command =
  Name :: string
  Abbrev :: string

text \<open>
  Modelled from the spec: the helpers \<open>uint24To32\<close> and \<open>uint32To24\<close> are called by
  header.go but defined in a file that is not part of the sources at hand. The spec
  describes the two packed fields as "24-bit unsigned, big-endian": the first byte of
  the array is the most significant one, and packing keeps the low 24 bits.
\<close>

definition uint24To32 :: "uint24 \<Rightarrow> u32" where
  "uint24To32 b =
     (case b of (b0, b1, b2) \<Rightarrow>
        push_bit 16 (ucast b0) OR push_bit 8 (ucast b1) OR ucast b2)"

definition uint32To24 :: "u32 \<Rightarrow> uint24" where
  "uint32To24 n = (ucast (drop_bit 16 n), ucast (drop_bit 8 n), ucast n)"

text \<open>
  \<open>unsafe.Sizeof(Header{})\<close>: the fields take 1 + 3 + 1 + 3 + 4 + 4 + 4 bytes, the
  three \<open>uint32\<close> fields start at offsets 8, 12 and 16, all multiples of 4, so the
  compiler inserts no padding.
\<close>

definition sizeof_Header :: u32 where
  "sizeof_Header = 1 + 3 + 1 + 3 + 4 + 4 + 4"

subsection \<open>Readers and \<open>binary.Read\<close>\<close>

text \<open>
  An \<open>io.Reader\<close> is modelled by what it will deliver: the bytes still to come and
  the error it returns once they are used up (\<open>EOF\<close> for an orderly end).
\<close>

record Reader =
  rdata :: "u8 list"
  rerr :: error

text \<open>
  \<open>io.ReadFull(r, buf)\<close> with \<open>len(buf) = n\<close>, as \<open>io.ReadAtLeast\<close> implements it:
  with \<open>n\<close> bytes available it succeeds and consumes exactly those; otherwise the
  reader's error comes back, turned into \<open>ErrUnexpectedEOF\<close> when it is \<open>EOF\<close> and
  at least one byte had been read.
\<close>

definition io_ReadFull :: "Reader \<Rightarrow> nat \<Rightarrow> (error + u8 list) \<times> Reader" where
  "io_ReadFull r n =
     (if n \<le> length (rdata r)
      then (Inr (take n (rdata r)), r\<lparr>rdata := drop n (rdata r)\<rparr>)
      else (Inl (if rdata r \<noteq> [] \<and> rerr r = EOF then ErrUnexpectedEOF else rerr r),
            r\<lparr>rdata := []\<rparr>))"

definition BigEndian_Uint32 :: "u8 \<Rightarrow> u8 \<Rightarrow> u8 \<Rightarrow> u8 \<Rightarrow> u32" where
  "BigEndian_Uint32 b0 b1 b2 b3 =
     push_bit 24 (ucast b0) OR push_bit 16 (ucast b1) OR push_bit 8 (ucast b2) OR ucast b3"

definition BigEndian_PutUint32 :: "u32 \<Rightarrow> u8 list" where
  "BigEndian_PutUint32 v =
     [ucast (drop_bit 24 v), ucast (drop_bit 16 v), ucast (drop_bit 8 v), ucast v]"

text \<open>
  \<open>binary.Read(r, binary.BigEndian, hdr)\<close> for a pointer to \<open>Header\<close>: the size of the
  struct's wire form is 20, the bytes are fetched with \<open>io.ReadFull\<close> and the fields
  are filled in declaration order, arrays element by element, integers big-endian.
\<close>

definition decode_Header :: "u8 list \<Rightarrow> Header" where
  "decode_Header b =
     \<lparr>Version = b ! 0,
      RawMessageLength = (b ! 1, b ! 2, b ! 3),
      CommandFlags = b ! 4,
      RawCommandCode = (b ! 5, b ! 6, b ! 7),
      ApplicationId = BigEndian_Uint32 (b ! 8) (b ! 9) (b ! 10) (b ! 11),
      HopByHopId = BigEndian_Uint32 (b ! 12) (b ! 13) (b ! 14) (b ! 15),
      EndToEndId = BigEndian_Uint32 (b ! 16) (b ! 17) (b ! 18) (b ! 19)\<rparr>"

definition binary_Read :: "Reader \<Rightarrow> (error + Header) \<times> Reader" where
  "binary_Read r =
     (case io_ReadFull r 20 of
        (Inl err, r') \<Rightarrow> (Inl err, r')
      | (Inr b, r') \<Rightarrow> (Inr (decode_Header b), r'))"

text \<open>
  \<open>ReadHeader\<close> returns \<open>(nil, err)\<close> or \<open>(hdr, nil)\<close>: \<open>Inl err\<close> stands for the
  first, \<open>Inr hdr\<close> for the second. The reader is returned as the read left it.
\<close>

definition ReadHeader :: "Reader \<Rightarrow> (error + Header) \<times> Reader" where
  "ReadHeader r =
     (case binary_Read r of
        (Inl err, r') \<Rightarrow> (Inl err, r')
      | (Inr hdr, r') \<Rightarrow>
          if Version hdr \<noteq> 1 then (Inl (InvalidVersion (Version hdr)), r')
          else (Inr hdr, r'))"

text \<open>
  Modelled from the spec: the encoder is not part of the sources at hand. The spec's
  wire table gives the 20-byte layout: version at offset 0, the 3-byte length at 1,
  the flags at 4, the 3-byte command code at 5, then the application, hop-by-hop and
  end-to-end identifiers at 8, 12 and 16, each of 4 bytes, all big-endian.
\<close>

definition Encode :: "Header \<Rightarrow> u8 list" where
  "Encode h =
     (case RawMessageLength h of (l0, l1, l2) \<Rightarrow>
      case RawCommandCode h of (c0, c1, c2) \<Rightarrow>
        [Version h, l0, l1, l2, CommandFlags h, c0, c1, c2]
        @ BigEndian_PutUint32 (ApplicationId h)
        @ BigEndian_PutUint32 (HopByHopId h)
        @ BigEndian_PutUint32 (EndToEndId h))"

subsection \<open>Header helpers\<close>

definition MessageLength :: "Header \<Rightarrow> u32" where
  "MessageLength hdr = uint24To32 (RawMessageLength hdr)"

definition SetMessageLength :: "Header \<Rightarrow> u32 \<Rightarrow> Header" where
  "SetMessageLength hdr length' =
     hdr\<lparr>RawMessageLength := uint32To24 (sizeof_Header + length')\<rparr>"

definition CommandCode :: "Header \<Rightarrow> u32" where
  "CommandCode hdr = uint24To32 (RawCommandCode hdr)"

definition commandCodes :: "u32 \<rightharpoonup> Command" where
  "commandCodes =
     [274 \<mapsto> \<lparr>Name = ''Abbort-Session'', Abbrev = ''AS''\<rparr>,
      271 \<mapsto> \<lparr>Name = ''Accounting'', Abbrev = ''AC''\<rparr>,
      257 \<mapsto> \<lparr>Name = ''Capabilities-Exchange'', Abbrev = ''CE''\<rparr>,
      280 \<mapsto> \<lparr>Name = ''Device-Watchdog'', Abbrev = ''DW''\<rparr>,
      282 \<mapsto> \<lparr>Name = ''Disconnect-Peer'', Abbrev = ''DP''\<rparr>,
      258 \<mapsto> \<lparr>Name = ''Re-Auth'', Abbrev = ''RA''\<rparr>,
      275 \<mapsto> \<lparr>Name = ''Session-Termination'', Abbrev = ''ST''\<rparr>]"

definition CommandName :: "Header \<Rightarrow> Command" where
  "CommandName hdr =
     (let (nameSuffix, abbrevSuffix) =
            (if CommandFlags hdr AND 0x80 > 0 then (''-Request'', ''R'')
             else (''-Answer'', ''A''));
          code = CommandCode hdr
      in case commandCodes code of
           Some cmd \<Rightarrow> \<lparr>Name = Name cmd @ nameSuffix, Abbrev = Abbrev cmd @ abbrevSuffix\<rparr>
         | None \<Rightarrow> \<lparr>Name = ''Unknown'', Abbrev = ''?''\<rparr>)"

fun is_version_error :: "error \<Rightarrow> bool" where
  "is_version_error (InvalidVersion v) = True"
| "is_version_error _ = False"

section \<open>Diameter server: multiplexer and connection\<close>

subsection \<open>Messages, handlers and events\<close>

text \<open>
  Modelled from the spec: the types \<open>Message\<close> and \<open>dict.Parser\<close>, the method
  \<open>FindCommand\<close> and the constant \<open>RequestFlag\<close> are used by the server but declared in
  files that are not part of the sources at hand. A message carries the three header
  fields the multiplexer reads and the dictionary it was decoded with; a dictionary is
  taken as a parameter, namely the function that \<open>FindCommand\<close> computes from an
  application id and a command code to a command or an error; of a dictionary command
  only the short name is read. The Request flag is bit 7 of the flags byte, the same
  bit that header.go tests with the literal \<open>0x80\<close>.
\<close>

record dict_Command =
  Short :: string

type_synonym Parser = "u32 \<Rightarrow> u32 \<Rightarrow> error + dict_Command"

record MessageHeader =
  ApplicationID :: u32
  CommandCode_m :: u32
  CommandFlags_m :: u8

record Message =
  Header :: MessageHeader
  Dictionary :: Parser

definition FindCommand :: "Parser \<Rightarrow> u32 \<Rightarrow> u32 \<Rightarrow> error + dict_Command" where
  "FindCommand p appid code = p appid code"

definition RequestFlag :: u8 where
  "RequestFlag = 0x80"

text \<open>
  A \<open>Conn\<close> handed to a handler is the \<open>response\<close> object of one connection; it is
  identified by a number. Handlers are user code: \<open>HandlerFunc n\<close> is the function
  adapter (its only method is \<open>ServeDIAM\<close>), \<open>Custom n r\<close> a value of some other type,
  where \<open>r\<close> says whether its method set has \<open>Error\<close> and \<open>ErrorReports\<close>, that is,
  whether the type assertion \<open>h.(ErrorReporter)\<close> succeeds.
\<close>

type_synonym Conn = nat

datatype UserHandler = HandlerFunc nat | Custom nat bool

fun is_ErrorReporter :: "UserHandler \<Rightarrow> bool" where
  "is_ErrorReporter (HandlerFunc n) = False"
| "is_ErrorReporter (Custom n r) = r"

record ErrorReport =
  Conn :: Conn
  Message :: "Message option"
  Error :: error

text \<open>
  What the server does to the outside is recorded as a trace of events: calls into
  user code (\<open>Invoke\<close> for \<open>ServeDIAM\<close>, \<open>ReportTo\<close> for the \<open>Error\<close> method of a
  user-defined reporter) and calls on the socket, its buffered writer and the logger.
\<close>

datatype event =
    Invoke UserHandler Conn Message
  | ReportTo UserHandler ErrorReport
  | Handshake
  | SetReadDeadline int
  | SetWriteDeadline int
  | BufWrite "u8 list"
  | BufFlush
  | LogPanic
  | Close

datatype panic = Panic string

subsection \<open>The error mailbox: a buffered channel\<close>

text \<open>
  A buffered channel is its capacity and the values waiting in it, oldest first.
  \<open>chan_try_send\<close> is \<open>select { case ch <- x: default: }\<close>: the send happens when the
  buffer has room, otherwise the default branch runs and \<open>x\<close> is dropped. Either way
  the statement completes, so the function is total.
\<close>

record 'a chan =
  cap :: nat
  buf :: "'a list"

definition make_chan :: "nat \<Rightarrow> 'a chan" where
  "make_chan n = \<lparr>cap = n, buf = []\<rparr>"

definition chan_try_send :: "'a chan \<Rightarrow> 'a \<Rightarrow> 'a chan" where
  "chan_try_send ch x = (if length (buf ch) < cap ch then ch\<lparr>buf := buf ch @ [x]\<rparr> else ch)"

subsection \<open>ServeMux\<close>

text \<open>
  The fields \<open>h\<close>, \<open>cmd\<close> of \<open>muxEntry\<close> and \<open>e\<close>, \<open>m\<close> of \<open>ServeMux\<close> carry a prefix
  here, since a one-letter constant would capture the variables of every later
  statement. The two locks guard concurrent access and have no sequential effect.
\<close>

record muxEntry =
  entry_h :: UserHandler
  entry_cmd :: string

record ServeMux =
  mux_e :: "ErrorReport chan"
  mux_m :: "string \<rightharpoonup> muxEntry"

definition NewServeMux :: ServeMux where
  "NewServeMux = \<lparr>mux_e = make_chan 1, mux_m = Map.empty\<rparr>"

definition ServeMux_Error :: "ServeMux \<Rightarrow> ErrorReport \<Rightarrow> ServeMux" where
  "ServeMux_Error mux err = mux\<lparr>mux_e := chan_try_send (mux_e mux) err\<rparr>"

definition ServeMux_ErrorReports :: "ServeMux \<Rightarrow> ErrorReport chan" where
  "ServeMux_ErrorReports mux = mux_e mux"

text \<open>
  A call into user code may panic; \<open>pn\<close> says which calls do. The functions below
  return whether a panic is under way, the multiplexer as the call left it and the
  events of the call. User code is taken not to touch the multiplexer itself.
\<close>

definition ServeMux_serve ::
  "(event \<Rightarrow> bool) \<Rightarrow> ServeMux \<Rightarrow> string \<Rightarrow> Conn \<Rightarrow> Message \<Rightarrow> bool \<times> ServeMux \<times> event list" where
  "ServeMux_serve pn mux cmd' c m =
     (case mux_m mux cmd' of
        Some entry \<Rightarrow> (pn (Invoke (entry_h entry) c m), mux, [Invoke (entry_h entry) c m])
      | None \<Rightarrow>
          (False,
           ServeMux_Error mux
             \<lparr>Conn = c, Message = Some m, Error = ErrorsNew ''unhandled message''\<rparr>,
           []))"

definition ServeMux_ServeDIAM ::
  "(event \<Rightarrow> bool) \<Rightarrow> ServeMux \<Rightarrow> Conn \<Rightarrow> Message \<Rightarrow> bool \<times> ServeMux \<times> event list" where
  "ServeMux_ServeDIAM pn mux c m =
     (case FindCommand (Dictionary m) (ApplicationID (Header m)) (CommandCode_m (Header m)) of
        Inl err \<Rightarrow> ServeMux_serve pn mux ''ALL'' c m
      | Inr dcmd \<Rightarrow>
          (let cmd' = (if CommandFlags_m (Header m) AND RequestFlag = RequestFlag
                       then Short dcmd @ ''R''
                       else Short dcmd @ ''A'')
           in ServeMux_serve pn mux cmd' c m))"

text \<open>
  \<open>Handle\<close> takes a \<open>Handler\<close> interface value, \<open>None\<close> being the nil interface. The
  result pairs the outcome with the multiplexer as the call left it.
\<close>

definition ServeMux_Handle ::
  "ServeMux \<Rightarrow> string \<Rightarrow> UserHandler option \<Rightarrow> (panic + unit) \<times> ServeMux" where
  "ServeMux_Handle mux cmd' handler =
     (case handler of
        None \<Rightarrow> (Inl (Panic ''DIAM: nil handler''), mux)
      | Some hd' \<Rightarrow>
          (Inr (), mux\<lparr>mux_m := (mux_m mux)(cmd' \<mapsto> \<lparr>entry_h = hd', entry_cmd = cmd'\<rparr>)\<rparr>))"

subsection \<open>Server and connection\<close>

text \<open>
  Multiplexers are shared objects reached through pointers, so they live in a store
  from addresses to multiplexers; \<open>DefaultServeMux\<close> is the pointer created at package
  initialisation. A server's handler is nil (\<open>None\<close>), a pointer to a multiplexer or
  user code.
\<close>

type_synonym store = "nat \<Rightarrow> ServeMux"

definition DefaultServeMux :: nat where
  "DefaultServeMux = 0"

datatype Handler = MuxPtr nat | User UserHandler

record Server =
  Handler :: "Handler option"
  ReadTimeout :: int
  WriteTimeout :: int

record conn =
  server :: Server
  writer :: Conn

definition Handler_ServeDIAM ::
  "(event \<Rightarrow> bool) \<Rightarrow> Handler \<Rightarrow> Conn \<Rightarrow> Message \<Rightarrow> store \<Rightarrow> bool \<times> store \<times> event list" where
  "Handler_ServeDIAM pn h w m st =
     (case h of
        MuxPtr a \<Rightarrow>
          (case ServeMux_ServeDIAM pn (st a) w m of
             (p, mux', evs) \<Rightarrow> (p, st(a := mux'), evs))
      | User u \<Rightarrow> (pn (Invoke u w m), st, [Invoke u w m]))"

definition serverHandler_ServeDIAM ::
  "(event \<Rightarrow> bool) \<Rightarrow> Server \<Rightarrow> Conn \<Rightarrow> Message \<Rightarrow> store \<Rightarrow> bool \<times> store \<times> event list" where
  "serverHandler_ServeDIAM pn srv w m st =
     (let handler = (case Handler srv of None \<Rightarrow> MuxPtr DefaultServeMux | Some h \<Rightarrow> h)
      in Handler_ServeDIAM pn handler w m st)"

text \<open>
  Modelled from the spec: \<open>ReadMessage\<close> is not part of the sources at hand; it returns
  a message or an error. \<open>conn.readMessage\<close> arms the read deadline when a read timeout
  is configured and passes the outcome on, with a nil message beside an error.
\<close>

definition conn_readMessage :: "conn \<Rightarrow> error + Message \<Rightarrow> (error + Message) \<times> event list" where
  "conn_readMessage c outcome =
     (let evs = (if ReadTimeout (server c) > 0 then [SetReadDeadline (ReadTimeout (server c))]
                 else [])
      in case outcome of
           Inl err \<Rightarrow> (Inl err, evs)
         | Inr m \<Rightarrow> (Inr m, evs))"

text \<open>
  The part of the loop body that runs when reading failed, after the socket was
  closed: \<open>m\<close> is nil there, since \<open>readMessage\<close> returned an error.
\<close>

definition report_read_error ::
  "(event \<Rightarrow> bool) \<Rightarrow> conn \<Rightarrow> error \<Rightarrow> store \<Rightarrow> bool \<times> store \<times> event list" where
  "report_read_error pn c err st =
     (if err \<noteq> EOF \<and> err \<noteq> ErrUnexpectedEOF then
        (let h = (case Handler (server c) of None \<Rightarrow> MuxPtr DefaultServeMux | Some h' \<Rightarrow> h');
             rep = \<lparr>Conn = writer c, Message = None, Error = err\<rparr>
         in case h of
              MuxPtr a \<Rightarrow> (False, st(a := ServeMux_Error (st a) rep), [])
            | User u \<Rightarrow>
                if is_ErrorReporter u then (pn (ReportTo u rep), st, [ReportTo u rep])
                else (False, st, []))
      else (False, st, []))"

text \<open>
  The \<open>for\<close> loop of \<open>conn.serve\<close>. The list holds the outcomes of the successive calls
  of \<open>ReadMessage\<close>; when it is used up the next read never returns and neither does
  the loop, which is the value \<open>None\<close>. The loop ends by \<open>break\<close> after a failed read or
  by a panic in user code; the flag in the result tells the two apart.
\<close>

fun serve_loop ::
  "(event \<Rightarrow> bool) \<Rightarrow> conn \<Rightarrow> (error + Message) list \<Rightarrow> store \<Rightarrow> event list
     \<Rightarrow> (bool \<times> store \<times> event list) option" where
  "serve_loop pn c [] st tr = None"
| "serve_loop pn c (outcome # rest) st tr =
     (case conn_readMessage c outcome of
        (Inl err, evs) \<Rightarrow>
          (case report_read_error pn c err st of
             (p, st', evs') \<Rightarrow> Some (p, st', tr @ evs @ [Close] @ evs'))
      | (Inr m, evs) \<Rightarrow>
          (case serverHandler_ServeDIAM pn (server c) (writer c) m st of
             (True, st', evs') \<Rightarrow> Some (True, st', tr @ evs @ evs')
           | (False, st', evs') \<Rightarrow> serve_loop pn c rest st' (tr @ evs @ evs')))"

text \<open>
  \<open>conn.serve\<close>. \<open>tls\<close> is \<open>None\<close> for a plain socket and otherwise the result of the
  handshake. The deferred function runs on every way out: it logs a recovered panic
  and closes the socket.
\<close>

definition conn_serve ::
  "(event \<Rightarrow> bool) \<Rightarrow> conn \<Rightarrow> error option option \<Rightarrow> (error + Message) list \<Rightarrow> store
     \<Rightarrow> (store \<times> event list) option" where
  "conn_serve pn c tls outcomes st =
     (case tls of
        Some (Some err) \<Rightarrow> Some (st, [Handshake, Close])
      | _ \<Rightarrow>
          (case serve_loop pn c outcomes st (if tls = None then [] else [Handshake]) of
             None \<Rightarrow> None
           | Some (p, st', tr) \<Rightarrow> Some (st', tr @ (if p then [LogPanic] else []) @ [Close])))"

text \<open>
  \<open>response.Write\<close>. The buffered writer is outside the sources: \<open>wres\<close> is what its
  \<open>Write\<close> returns for \<open>b\<close> (a count and an error or nil) and \<open>fres\<close> what \<open>Flush\<close>
  returns if it is called.
\<close>

definition response_Write ::
  "conn \<Rightarrow> u8 list \<Rightarrow> int \<times> error option \<Rightarrow> error option \<Rightarrow> (int \<times> error option) \<times> event list" where
  "response_Write c b wres fres =
     (let evs = (if WriteTimeout (server c) > 0 then [SetWriteDeadline (WriteTimeout (server c))]
                 else [])
      in case wres of
           (n, Some err) \<Rightarrow> ((0, Some err), evs @ [BufWrite b])
         | (n, None) \<Rightarrow>
             (case fres of
                Some err \<Rightarrow> ((0, Some err), evs @ [BufWrite b, BufFlush])
              | None \<Rightarrow> ((n, None), evs @ [BufWrite b, BufFlush])))"

text \<open>Observers and fixed inputs used in the closed statements below.\<close>

definition no_panics :: "event \<Rightarrow> bool" where
  "no_panics ev = False"

definition fresh_store :: store where
  "fresh_store a = NewServeMux"

definition mailbox :: "store \<Rightarrow> nat \<Rightarrow> ErrorReport list" where
  "mailbox st a = buf (mux_e (st a))"

fun observed :: "(store \<times> event list) option \<Rightarrow> (ErrorReport list \<times> event list) option" where
  "observed None = None"
| "observed (Some (st, tr)) = Some (mailbox st DefaultServeMux, tr)"

text \<open>
  A dictionary with the one command of the Gx application (id 16777238): code 272,
  short name \<open>CC\<close>; a request and an answer of that command; a multiplexer with one
  handler registered under \<open>CCR\<close>; a plain connection of a server with no handler.
\<close>

definition gx_dict :: Parser where
  "gx_dict appid code =
     (if appid = 16777238 \<and> code = 272 then Inr \<lparr>Short = ''CC''\<rparr>
      else Inl (DictFault ''command not found''))"

definition ccr_msg :: Message where
  "ccr_msg =
     \<lparr>Header = \<lparr>ApplicationID = 16777238, CommandCode_m = 272, CommandFlags_m = 0x80\<rparr>,
      Dictionary = gx_dict\<rparr>"

definition cca_msg :: Message where
  "cca_msg =
     \<lparr>Header = \<lparr>ApplicationID = 16777238, CommandCode_m = 272, CommandFlags_m = 0x40\<rparr>,
      Dictionary = gx_dict\<rparr>"

definition ccr_mux :: ServeMux where
  "ccr_mux = snd (ServeMux_Handle NewServeMux ''CCR'' (Some (HandlerFunc 1)))"

definition plain_conn :: conn where
  "plain_conn = \<lparr>server = \<lparr>Handler = None, ReadTimeout = 0, WriteTimeout = 0\<rparr>, writer = 7\<rparr>"

text \<open>
  The same multiplexer after a connection reset on connection 3 was reported and not
  yet read: its mailbox is occupied.
\<close>

definition occupied_mux :: ServeMux where
  "occupied_mux =
     ServeMux_Error ccr_mux \<lparr>Conn = 3, Message = None, Error = IOFault ''reset''\<rparr>"

section \<open>Properties of the header codec\<close>

subsection \<open>Packing and unpacking\<close>

lemma sub_add_back: "\<not> (k::nat) < m \<Longrightarrow> m + (k - m) = k"
  by simp

lemma uint24_roundtrip: "uint24To32 (uint32To24 n) = take_bit 24 n"
  unfolding uint24To32_def uint32To24_def
proof (simp, rule bit_word_eqI)
  fix k :: nat
  assume "k < LENGTH(32)"
  show "bit (push_bit 16 (ucast (ucast (drop_bit 16 n) :: u8)) OR
             push_bit 8 (ucast (ucast (drop_bit 8 n) :: u8)) OR (ucast (ucast n :: u8) :: u32)) k
        = bit (take_bit 24 n) k"
    by (cases "k < 8"; cases "k < 16"; cases "k < 24")
       (auto simp: bit_simps sub_add_back)
qed

lemma be32_roundtrip:
  "BigEndian_Uint32 (ucast (drop_bit 24 v)) (ucast (drop_bit 16 v)) (ucast (drop_bit 8 v)) (ucast v) = v"
  unfolding BigEndian_Uint32_def
proof (rule bit_word_eqI)
  fix k :: nat
  assume "k < LENGTH(32)"
  then show "bit (push_bit 24 (ucast (ucast (drop_bit 24 v) :: u8)) OR
             push_bit 16 (ucast (ucast (drop_bit 16 v) :: u8)) OR
             push_bit 8 (ucast (ucast (drop_bit 8 v) :: u8)) OR (ucast (ucast v :: u8) :: u32)) k
        = bit v k"
    by (cases "k < 8"; cases "k < 16"; cases "k < 24")
       (auto simp: bit_simps sub_add_back)
qed

lemma sizeof_Header_20: "sizeof_Header = 20"
  by (simp add: sizeof_Header_def)

lemma length_Encode: "length (Encode h) = 20"
  by (simp add: Encode_def BigEndian_PutUint32_def split: prod.splits)

lemma decode_Encode: "decode_Header (Encode h) = h"
  by (cases h)
     (simp add: decode_Header_def Encode_def BigEndian_PutUint32_def be32_roundtrip
        split: prod.splits)

lemma io_ReadFull_enough:
  "n \<le> length (rdata r) \<Longrightarrow>
   io_ReadFull r n = (Inr (take n (rdata r)), r\<lparr>rdata := drop n (rdata r)\<rparr>)"
  by (simp add: io_ReadFull_def)

subsection \<open>Decoding what was encoded\<close>

text \<open>
  C1. A header with version 1, whatever its packed length and command code, its flags
  and its three identifiers, is encoded into 20 bytes; reading a header from a stream
  that starts with these bytes returns that very header, with no error, and leaves the
  rest of the stream to be read.
\<close>

theorem ReadHeader_Encode:
  "Version h = 1 \<Longrightarrow>
   ReadHeader \<lparr>rdata = Encode h @ rest, rerr = e\<rparr> = (Inr h, \<lparr>rdata = rest, rerr = e\<rparr>)"
  by (simp add: ReadHeader_def binary_Read_def io_ReadFull_enough length_Encode decode_Encode)

theorem ReadHeader_Encode_witness:
  "ReadHeader \<lparr>rdata = Encode \<lparr>Version = 1, RawMessageLength = (0, 0, 20), CommandFlags = 0x80,
        RawCommandCode = (0, 1, 1), ApplicationId = 0, HopByHopId = 0xDEADBEEF, EndToEndId = 7\<rparr> @ [9],
      rerr = EOF\<rparr>
   = (Inr \<lparr>Version = 1, RawMessageLength = (0, 0, 20), CommandFlags = 0x80,
        RawCommandCode = (0, 1, 1), ApplicationId = 0, HopByHopId = 0xDEADBEEF, EndToEndId = 7\<rparr>,
      \<lparr>rdata = [9], rerr = EOF\<rparr>)"
  using ReadHeader_Encode [of "\<lparr>Version = 1, RawMessageLength = (0, 0, 20), CommandFlags = 0x80,
        RawCommandCode = (0, 1, 1), ApplicationId = 0, HopByHopId = 0xDEADBEEF, EndToEndId = 7\<rparr>" "[9]" EOF]
  by simp

subsection \<open>A wrong version byte\<close>

text \<open>
  C2. When the first byte of the stream is not 1, \<open>ReadHeader\<close> returns an error and no
  header. With 20 bytes or more in the stream the error is the version error, carrying
  the offending byte. With fewer, the read fails before the version is looked at and
  the error is that of the read: \<open>ErrUnexpectedEOF\<close> when the stream ended, otherwise
  the reader's own error.
\<close>

theorem ReadHeader_bad_version:
  "rdata r = b # bs \<Longrightarrow> b \<noteq> 1 \<Longrightarrow>
   (\<exists>e. fst (ReadHeader r) = Inl e) \<and>
   (20 \<le> length (rdata r) \<longrightarrow> fst (ReadHeader r) = Inl (InvalidVersion b)) \<and>
   (length (rdata r) < 20 \<longrightarrow>
      fst (ReadHeader r) = Inl (if rerr r = EOF then ErrUnexpectedEOF else rerr r))"
proof (cases "20 \<le> length (rdata r)")
  case True
  assume r: "rdata r = b # bs" and b: "b \<noteq> 1"
  from True r have "Version (decode_Header (take 20 (rdata r))) = b"
    by (simp add: decode_Header_def)
  with True b show ?thesis
    by (simp add: ReadHeader_def binary_Read_def io_ReadFull_enough)
next
  case False
  assume r: "rdata r = b # bs"
  with False show ?thesis
    by (simp add: ReadHeader_def binary_Read_def io_ReadFull_def)
qed

theorem ReadHeader_bad_version_witness:
  "fst (ReadHeader \<lparr>rdata = [2, 0, 0, 20, 0, 0, 1, 1, 0, 0, 0, 0, 0, 0, 0, 0, 0, 0, 0, 0], rerr = EOF\<rparr>)
     = Inl (InvalidVersion 2) \<and>
   fst (ReadHeader \<lparr>rdata = [2, 0, 0], rerr = IOFault ''reset''\<rparr>) = Inl (IOFault ''reset'')"
  using ReadHeader_bad_version
      [of "\<lparr>rdata = [2, 0, 0, 20, 0, 0, 1, 1, 0, 0, 0, 0, 0, 0, 0, 0, 0, 0, 0, 0], rerr = EOF\<rparr>"
          2 "[0, 0, 20, 0, 0, 1, 1, 0, 0, 0, 0, 0, 0, 0, 0, 0, 0, 0, 0]"]
    ReadHeader_bad_version [of "\<lparr>rdata = [2, 0, 0], rerr = IOFault ''reset''\<rparr>" 2 "[0, 0]"]
  by simp

text \<open>
  The stream of the single byte 2 starts with a byte other than 1, and the error that
  comes back is \<open>ErrUnexpectedEOF\<close>, which is not a version error.
\<close>

theorem ReadHeader_short_stream_counterexample:
  "hd (rdata \<lparr>rdata = [2], rerr = EOF\<rparr>) \<noteq> 1 \<and>
   fst (ReadHeader \<lparr>rdata = [2], rerr = EOF\<rparr>) = Inl ErrUnexpectedEOF \<and>
   \<not> is_version_error ErrUnexpectedEOF"
  by (simp add: ReadHeader_def binary_Read_def io_ReadFull_def)

subsection \<open>Command names\<close>

lemma CommandCode_flags: "CommandCode (hdr\<lparr>CommandFlags := f\<rparr>) = CommandCode hdr"
  by (simp add: CommandCode_def)

text \<open>
  C7. When the command code of a header is not in the table \<open>commandCodes\<close>,
  \<open>CommandName\<close> returns the name \<open>Unknown\<close> and the abbreviation \<open>?\<close> with nothing
  appended, whatever the flags byte is, so with the Request bit set as with it clear.
\<close>

theorem CommandName_unknown:
  "commandCodes (CommandCode hdr) = None \<Longrightarrow>
   CommandName (hdr\<lparr>CommandFlags := f\<rparr>) = \<lparr>Name = ''Unknown'', Abbrev = ''?''\<rparr>"
  by (simp add: CommandName_def CommandCode_flags split: prod.splits)

theorem CommandName_unknown_witness:
  "commandCodes (CommandCode \<lparr>Version = 1, RawMessageLength = (0, 0, 20), CommandFlags = 0,
        RawCommandCode = (0, 1, 16), ApplicationId = 4, HopByHopId = 0, EndToEndId = 0\<rparr>) = None \<and>
   CommandName \<lparr>Version = 1, RawMessageLength = (0, 0, 20), CommandFlags = 0x80,
        RawCommandCode = (0, 1, 16), ApplicationId = 4, HopByHopId = 0, EndToEndId = 0\<rparr>
     = \<lparr>Name = ''Unknown'', Abbrev = ''?''\<rparr> \<and>
   CommandName \<lparr>Version = 1, RawMessageLength = (0, 0, 20), CommandFlags = 0,
        RawCommandCode = (0, 1, 16), ApplicationId = 4, HopByHopId = 0, EndToEndId = 0\<rparr>
     = \<lparr>Name = ''Unknown'', Abbrev = ''?''\<rparr>"
proof -
  let ?h = "\<lparr>Version = 1, RawMessageLength = (0, 0, 20), CommandFlags = 0,
        RawCommandCode = (0, 1, 16), ApplicationId = 4, HopByHopId = 0, EndToEndId = 0\<rparr>"
  have miss: "commandCodes (CommandCode ?h) = None"
    by (simp add: commandCodes_def CommandCode_def uint24To32_def)
  from CommandName_unknown [OF miss, of "0x80"] CommandName_unknown [OF miss, of 0] miss
  show ?thesis by simp
qed

subsection \<open>Setting the message length\<close>

text \<open>
  C8. After \<open>SetMessageLength\<close> with payload length \<open>len\<close>, \<open>MessageLength\<close> is 20 plus
  \<open>len\<close> cut to 24 bits, that is, modulo \<open>2 ^ 24\<close>; the version, the flags, the command
  code and the three identifiers are what they were.
\<close>

theorem SetMessageLength_MessageLength:
  "unat (MessageLength (SetMessageLength hdr len)) = (20 + unat len) mod 2 ^ 24 \<and>
   MessageLength (SetMessageLength hdr len) = take_bit 24 (20 + len) \<and>
   Version (SetMessageLength hdr len) = Version hdr \<and>
   CommandFlags (SetMessageLength hdr len) = CommandFlags hdr \<and>
   RawCommandCode (SetMessageLength hdr len) = RawCommandCode hdr \<and>
   ApplicationId (SetMessageLength hdr len) = ApplicationId hdr \<and>
   HopByHopId (SetMessageLength hdr len) = HopByHopId hdr \<and>
   EndToEndId (SetMessageLength hdr len) = EndToEndId hdr"
proof -
  have w: "MessageLength (SetMessageLength hdr len) = take_bit 24 (20 + len)"
    by (simp add: MessageLength_def SetMessageLength_def uint24_roundtrip sizeof_Header_20)
  have "unat (take_bit 24 (20 + len)) = unat (20 + len) mod 2 ^ 24"
    unfolding unsigned_take_bit_eq by (simp add: take_bit_eq_mod)
  also have "unat (20 + len) = (20 + unat len) mod 2 ^ 32"
    by (simp add: unat_word_ariths)
  also have "(20 + unat len) mod 2 ^ 32 mod 2 ^ 24 = (20 + unat len) mod 2 ^ 24"
    by (rule mod_mod_cancel) simp
  finally have n: "unat (take_bit 24 (20 + len)) = (20 + unat len) mod 2 ^ 24" .
  show ?thesis
    using w n by (simp add: SetMessageLength_def)
qed

lemma CommandName_CER:
  "CommandName \<lparr>Version = 1, RawMessageLength = (0, 0, 20), CommandFlags = 0x80,
        RawCommandCode = (0, 1, 1), ApplicationId = 0, HopByHopId = 0, EndToEndId = 0\<rparr>
     = \<lparr>Name = ''Capabilities-Exchange-Request'', Abbrev = ''CER''\<rparr>"
  by (simp add: CommandName_def CommandCode_def uint24To32_def commandCodes_def)

section \<open>Properties of the multiplexer\<close>

subsection \<open>The dispatch key\<close>

lemma RequestFlag_bit: "(f AND RequestFlag = RequestFlag) = bit f 7"
proof -
  have e: "(0x80 :: u8) = 2 ^ 7" by simp
  have "(f AND (2 ^ 7 :: u8) = 2 ^ 7) = bit f 7"
  proof
    assume a: "f AND (2 ^ 7 :: u8) = 2 ^ 7"
    show "bit f 7"
    proof (rule ccontr)
      assume "\<not> bit f 7"
      then have "f AND (2 ^ 7 :: u8) = 0"
        by (rule and_exp_eq_0_iff_not_bit [THEN iffD2])
      with a have "(2 ^ 7 :: u8) = 0" by (simp only:)
      then show False by simp
    qed
  next
    assume b: "bit f 7"
    show "f AND (2 ^ 7 :: u8) = 2 ^ 7"
    proof (rule bit_word_eqI)
      fix k :: nat
      assume "k < LENGTH(8)"
      have p: "bit (2 ^ 7 :: u8) k = (k = 7)"
        unfolding bit_exp_iff by auto
      show "bit (f AND 2 ^ 7) k = bit (2 ^ 7 :: u8) k"
        unfolding bit_and_iff p using b by blast
    qed
  qed
  then show ?thesis unfolding RequestFlag_def e .
qed

lemma ServeMux_ServeDIAM_key:
  "FindCommand (Dictionary m) (ApplicationID (Header m)) (CommandCode_m (Header m)) = Inr dcmd \<Longrightarrow>
   ServeMux_ServeDIAM pn mux c m =
     ServeMux_serve pn mux
       (Short dcmd @ (if bit (CommandFlags_m (Header m)) 7 then ''R'' else ''A'')) c m"
  by (simp add: ServeMux_ServeDIAM_def RequestFlag_bit)

lemma ServeMux_ServeDIAM_ALL:
  "FindCommand (Dictionary m) (ApplicationID (Header m)) (CommandCode_m (Header m)) = Inl err \<Longrightarrow>
   ServeMux_ServeDIAM pn mux c m = ServeMux_serve pn mux ''ALL'' c m"
  by (simp add: ServeMux_ServeDIAM_def)

lemma ServeMux_serve_hit:
  "mux_m mux k = Some entry \<Longrightarrow>
   ServeMux_serve pn mux k c m = (pn (Invoke (entry_h entry) c m), mux, [Invoke (entry_h entry) c m])"
  by (simp add: ServeMux_serve_def)

lemma ServeMux_serve_miss:
  "mux_m mux k = None \<Longrightarrow>
   ServeMux_serve pn mux k c m =
     (False,
      ServeMux_Error mux \<lparr>Conn = c, Message = Some m, Error = ErrorsNew ''unhandled message''\<rparr>,
      [])"
  by (simp add: ServeMux_serve_def)

lemma ccr_found:
  "FindCommand (Dictionary ccr_msg) (ApplicationID (Header ccr_msg))
     (CommandCode_m (Header ccr_msg)) = Inr \<lparr>Short = ''CC''\<rparr>"
  by (simp add: FindCommand_def ccr_msg_def gx_dict_def)

lemma ccr_bit: "bit (CommandFlags_m (Header ccr_msg)) 7"
  by (simp add: ccr_msg_def)

lemma ccr_entry: "mux_m ccr_mux ''CCR'' = Some \<lparr>entry_h = HandlerFunc 1, entry_cmd = ''CCR''\<rparr>"
  by (simp add: ccr_mux_def ServeMux_Handle_def)

text \<open>
  C3. When the dictionary resolves the message to a command, the multiplexer looks up
  the command's short name followed by \<open>R\<close> if bit 7 of the flags (the Request bit) is
  set and by \<open>A\<close> if it is clear. In particular, with short name \<open>CC\<close>, the Request bit
  set and an entry under \<open>CCR\<close>, the only event of the dispatch is one call of that
  entry's handler with the connection and the message, and the multiplexer, its error
  channel included, is left as it was.
\<close>

theorem ServeDIAM_dispatch:
  assumes "FindCommand (Dictionary m) (ApplicationID (Header m)) (CommandCode_m (Header m)) = Inr dcmd"
  shows "ServeMux_ServeDIAM pn mux c m =
           ServeMux_serve pn mux
             (Short dcmd @ (if bit (CommandFlags_m (Header m)) 7 then ''R'' else ''A'')) c m \<and>
         (Short dcmd = ''CC'' \<and> bit (CommandFlags_m (Header m)) 7 \<and> mux_m mux ''CCR'' = Some entry \<longrightarrow>
            ServeMux_ServeDIAM pn mux c m =
              (pn (Invoke (entry_h entry) c m), mux, [Invoke (entry_h entry) c m]))"
proof -
  note key = ServeMux_ServeDIAM_key [OF assms, of pn mux c]
  show ?thesis
  proof (intro conjI impI)
    show "ServeMux_ServeDIAM pn mux c m =
            ServeMux_serve pn mux
              (Short dcmd @ (if bit (CommandFlags_m (Header m)) 7 then ''R'' else ''A'')) c m"
      by (rule key)
  next
    assume h: "Short dcmd = ''CC'' \<and> bit (CommandFlags_m (Header m)) 7 \<and> mux_m mux ''CCR'' = Some entry"
    then have "ServeMux_ServeDIAM pn mux c m = ServeMux_serve pn mux ''CCR'' c m"
      using key by simp
    with h show "ServeMux_ServeDIAM pn mux c m =
        (pn (Invoke (entry_h entry) c m), mux, [Invoke (entry_h entry) c m])"
      by (simp add: ServeMux_serve_hit)
  qed
qed

theorem ServeDIAM_dispatch_witness:
  "ServeMux_ServeDIAM no_panics ccr_mux 7 ccr_msg = (False, ccr_mux, [Invoke (HandlerFunc 1) 7 ccr_msg])"
proof -
  have "Short \<lparr>Short = ''CC''\<rparr> = ''CC'' \<and> bit (CommandFlags_m (Header ccr_msg)) 7 \<and>
        mux_m ccr_mux ''CCR'' = Some \<lparr>entry_h = HandlerFunc 1, entry_cmd = ''CCR''\<rparr>"
    using ccr_bit ccr_entry by simp
  with ServeDIAM_dispatch [OF ccr_found, of no_panics ccr_mux 7 "\<lparr>entry_h = HandlerFunc 1, entry_cmd = ''CCR''\<rparr>"]
  have "ServeMux_ServeDIAM no_panics ccr_mux 7 ccr_msg =
          (no_panics (Invoke (entry_h \<lparr>entry_h = HandlerFunc 1, entry_cmd = ''CCR''\<rparr>) 7 ccr_msg),
           ccr_mux, [Invoke (entry_h \<lparr>entry_h = HandlerFunc 1, entry_cmd = ''CCR''\<rparr>) 7 ccr_msg])"
    by blast
  then show ?thesis by (simp add: no_panics_def)
qed

subsection \<open>The error mailbox\<close>

lemma ServeMux_Error_empty:
  "cap (mux_e mux) = 1 \<Longrightarrow> buf (mux_e mux) = [] \<Longrightarrow> buf (mux_e (ServeMux_Error mux r)) = [r]"
  by (simp add: ServeMux_Error_def chan_try_send_def)

lemma ServeMux_Error_full:
  "cap (mux_e mux) = 1 \<Longrightarrow> buf (mux_e mux) = [q] \<Longrightarrow> ServeMux_Error mux r = mux"
  by (simp add: ServeMux_Error_def chan_try_send_def)

lemma ServeMux_Error_cap: "cap (mux_e (ServeMux_Error mux r)) = cap (mux_e mux)"
  by (simp add: ServeMux_Error_def chan_try_send_def)

lemma NewServeMux_mailbox: "cap (mux_e NewServeMux) = 1 \<and> buf (mux_e NewServeMux) = []"
  by (simp add: NewServeMux_def make_chan_def)

text \<open>
  C6. The mailbox of a multiplexer has capacity 1, as \<open>NewServeMux\<close> creates it, and
  \<open>Error\<close> keeps it so. \<open>Error\<close> always completes: on an empty mailbox it stores the
  report, on an occupied one it leaves the multiplexer as it was, the new report being
  dropped. So the mailbox never holds more than one report, and after two submissions
  to an empty mailbox with nothing read in between, the channel that \<open>ErrorReports\<close>
  hands out holds the first report alone.
\<close>

theorem ServeMux_Error_single_slot:
  "cap (mux_e mux) = 1 \<Longrightarrow>
   (buf (mux_e mux) = [] \<longrightarrow> buf (mux_e (ServeMux_Error mux r)) = [r]) \<and>
   (buf (mux_e mux) = [q] \<longrightarrow> ServeMux_Error mux r = mux) \<and>
   (length (buf (mux_e mux)) \<le> 1 \<longrightarrow> length (buf (mux_e (ServeMux_Error mux r))) \<le> 1) \<and>
   (buf (mux_e mux) = [] \<longrightarrow>
      buf (ServeMux_ErrorReports (ServeMux_Error (ServeMux_Error mux r) r')) = [r]) \<and>
   cap (mux_e (ServeMux_Error mux r)) = 1 \<and>
   cap (mux_e NewServeMux) = 1 \<and> buf (mux_e NewServeMux) = []"
proof -
  assume c: "cap (mux_e mux) = 1"
  have 1: "buf (mux_e mux) = [] \<longrightarrow> buf (mux_e (ServeMux_Error mux r)) = [r]"
    using c by (simp add: ServeMux_Error_empty)
  have 2: "buf (mux_e mux) = [q] \<longrightarrow> ServeMux_Error mux r = mux"
    using c by (simp add: ServeMux_Error_full)
  have 3: "length (buf (mux_e mux)) \<le> 1 \<longrightarrow> length (buf (mux_e (ServeMux_Error mux r))) \<le> 1"
    using c by (simp add: ServeMux_Error_def chan_try_send_def)
  have 5: "cap (mux_e (ServeMux_Error mux r)) = 1"
    using c by (simp add: ServeMux_Error_cap)
  have 4: "buf (mux_e mux) = [] \<longrightarrow>
      buf (ServeMux_ErrorReports (ServeMux_Error (ServeMux_Error mux r) r')) = [r]"
  proof
    assume "buf (mux_e mux) = []"
    with 1 have "buf (mux_e (ServeMux_Error mux r)) = [r]" by blast
    with 5 have "ServeMux_Error (ServeMux_Error mux r) r' = ServeMux_Error mux r"
      by (rule ServeMux_Error_full)
    with \<open>buf (mux_e (ServeMux_Error mux r)) = [r]\<close>
    show "buf (ServeMux_ErrorReports (ServeMux_Error (ServeMux_Error mux r) r')) = [r]"
      by (simp add: ServeMux_ErrorReports_def)
  qed
  from 1 2 3 4 5 NewServeMux_mailbox show ?thesis by blast
qed

theorem ServeMux_Error_single_slot_witness:
  "buf (ServeMux_ErrorReports
         (ServeMux_Error
            (ServeMux_Error NewServeMux \<lparr>Conn = 7, Message = None, Error = IOFault ''reset''\<rparr>)
            \<lparr>Conn = 8, Message = Some cca_msg, Error = ErrorsNew ''unhandled message''\<rparr>))
   = [\<lparr>Conn = 7, Message = None, Error = IOFault ''reset''\<rparr>]"
proof -
  have c: "cap (mux_e NewServeMux) = 1" and b: "buf (mux_e NewServeMux) = []"
    using NewServeMux_mailbox by blast+
  from ServeMux_Error_single_slot [OF c,
         of "\<lparr>Conn = 7, Message = None, Error = IOFault ''reset''\<rparr>"
            "\<lparr>Conn = 7, Message = None, Error = IOFault ''reset''\<rparr>"
            "\<lparr>Conn = 8, Message = Some cca_msg, Error = ErrorsNew ''unhandled message''\<rparr>"] b
  show ?thesis by blast
qed

subsection \<open>Unhandled messages\<close>

lemma cca_found:
  "FindCommand (Dictionary cca_msg) (ApplicationID (Header cca_msg))
     (CommandCode_m (Header cca_msg)) = Inr \<lparr>Short = ''CC''\<rparr>"
  by (simp add: FindCommand_def cca_msg_def gx_dict_def)

lemma cca_bit: "\<not> bit (CommandFlags_m (Header cca_msg)) 7"
  by (simp add: cca_msg_def)

lemma ccr_mux_table: "mux_m ccr_mux = [''CCR'' \<mapsto> \<lparr>entry_h = HandlerFunc 1, entry_cmd = ''CCR''\<rparr>]"
  by (simp add: ccr_mux_def ServeMux_Handle_def NewServeMux_def)

lemma ccr_mux_mailbox: "cap (mux_e ccr_mux) = 1 \<and> buf (mux_e ccr_mux) = []"
  by (simp add: ccr_mux_def ServeMux_Handle_def NewServeMux_def make_chan_def)

lemma occupied_mux_table: "mux_m occupied_mux = mux_m ccr_mux"
  by (simp add: occupied_mux_def ServeMux_Error_def)

lemma occupied_mux_mailbox:
  "cap (mux_e occupied_mux) = 1 \<and>
   buf (mux_e occupied_mux) = [\<lparr>Conn = 3, Message = None, Error = IOFault ''reset''\<rparr>]"
  using ccr_mux_mailbox
  by (simp add: occupied_mux_def ServeMux_Error_def chan_try_send_def)

text \<open>
  C4. When there is no entry under \<open>ALL\<close> and none under the key the message resolves
  to, dispatching the message hands one report to \<open>Error\<close> and does nothing else: the
  report names the connection and the message and its error is
  \<open>errors.New("unhandled message")\<close>; no handler is called and nothing is written, the
  trace of events being empty. What becomes of the report is the mailbox's business:
  on an empty mailbox it is then the one report waiting in the error channel; on an
  occupied one it is dropped, and the dispatch leaves the multiplexer exactly as it
  was.
\<close>

theorem ServeDIAM_unhandled:
  assumes "mux_m mux ''ALL'' = None"
    and "\<forall>dcmd. FindCommand (Dictionary m) (ApplicationID (Header m)) (CommandCode_m (Header m)) = Inr dcmd
           \<longrightarrow> mux_m mux (Short dcmd @ (if bit (CommandFlags_m (Header m)) 7 then ''R'' else ''A'')) = None"
  shows "ServeMux_ServeDIAM pn mux c m =
           (False,
            ServeMux_Error mux \<lparr>Conn = c, Message = Some m, Error = ErrorsNew ''unhandled message''\<rparr>,
            []) \<and>
         (cap (mux_e mux) = 1 \<and> buf (mux_e mux) = [] \<longrightarrow>
            buf (mux_e (fst (snd (ServeMux_ServeDIAM pn mux c m)))) =
              [\<lparr>Conn = c, Message = Some m, Error = ErrorsNew ''unhandled message''\<rparr>]) \<and>
         (cap (mux_e mux) = 1 \<and> buf (mux_e mux) = [q] \<longrightarrow>
            ServeMux_ServeDIAM pn mux c m = (False, mux, []))"
proof -
  have r: "ServeMux_ServeDIAM pn mux c m =
           (False,
            ServeMux_Error mux \<lparr>Conn = c, Message = Some m, Error = ErrorsNew ''unhandled message''\<rparr>,
            [])"
  proof (cases "FindCommand (Dictionary m) (ApplicationID (Header m)) (CommandCode_m (Header m))")
    case (Inl err)
    then show ?thesis
      using assms(1) by (simp add: ServeMux_ServeDIAM_ALL ServeMux_serve_miss)
  next
    case (Inr dcmd)
    with assms(2)
    have "mux_m mux (Short dcmd @ (if bit (CommandFlags_m (Header m)) 7 then ''R'' else ''A'')) = None"
      by blast
    then show ?thesis
      by (simp only: ServeMux_ServeDIAM_key [OF Inr] ServeMux_serve_miss)
  qed
  have e: "cap (mux_e mux) = 1 \<and> buf (mux_e mux) = [] \<longrightarrow>
            buf (mux_e (fst (snd (ServeMux_ServeDIAM pn mux c m)))) =
              [\<lparr>Conn = c, Message = Some m, Error = ErrorsNew ''unhandled message''\<rparr>]"
    by (simp add: r ServeMux_Error_empty)
  have f: "cap (mux_e mux) = 1 \<and> buf (mux_e mux) = [q] \<longrightarrow>
            ServeMux_ServeDIAM pn mux c m = (False, mux, [])"
    by (simp add: r ServeMux_Error_full)
  from r e f show ?thesis by blast
qed

theorem ServeDIAM_unhandled_witness:
  "buf (mux_e (fst (snd (ServeMux_ServeDIAM no_panics ccr_mux 7 cca_msg)))) =
     [\<lparr>Conn = 7, Message = Some cca_msg, Error = ErrorsNew ''unhandled message''\<rparr>] \<and>
   snd (snd (ServeMux_ServeDIAM no_panics ccr_mux 7 cca_msg)) = [] \<and>
   ServeMux_ServeDIAM no_panics ccr_mux 7 cca_msg =
     (False,
      ServeMux_Error ccr_mux
        \<lparr>Conn = 7, Message = Some cca_msg, Error = ErrorsNew ''unhandled message''\<rparr>,
      []) \<and>
   ServeMux_ServeDIAM no_panics occupied_mux 7 cca_msg = (False, occupied_mux, [])"
proof -
  have a: "mux_m ccr_mux ''ALL'' = None"
    by (simp add: ccr_mux_table)
  have k: "\<forall>dcmd. FindCommand (Dictionary cca_msg) (ApplicationID (Header cca_msg))
                (CommandCode_m (Header cca_msg)) = Inr dcmd
           \<longrightarrow> mux_m ccr_mux (Short dcmd @ (if bit (CommandFlags_m (Header cca_msg)) 7 then ''R'' else ''A'')) = None"
    by (auto simp: cca_found cca_bit ccr_mux_table)
  note u = ServeDIAM_unhandled [OF a k, of no_panics 7]
  from u ccr_mux_mailbox
  have "buf (mux_e (fst (snd (ServeMux_ServeDIAM no_panics ccr_mux 7 cca_msg)))) =
     [\<lparr>Conn = 7, Message = Some cca_msg, Error = ErrorsNew ''unhandled message''\<rparr>]"
    by blast
  moreover from u have "snd (snd (ServeMux_ServeDIAM no_panics ccr_mux 7 cca_msg)) = []"
    by simp
  moreover from u have "ServeMux_ServeDIAM no_panics ccr_mux 7 cca_msg =
     (False,
      ServeMux_Error ccr_mux
        \<lparr>Conn = 7, Message = Some cca_msg, Error = ErrorsNew ''unhandled message''\<rparr>,
      [])"
    by blast
  moreover have "ServeMux_ServeDIAM no_panics occupied_mux 7 cca_msg = (False, occupied_mux, [])"
  proof -
    have a': "mux_m occupied_mux ''ALL'' = None"
      by (simp add: occupied_mux_table ccr_mux_table)
    have k': "\<forall>dcmd. FindCommand (Dictionary cca_msg) (ApplicationID (Header cca_msg))
                  (CommandCode_m (Header cca_msg)) = Inr dcmd
             \<longrightarrow> mux_m occupied_mux
                   (Short dcmd @ (if bit (CommandFlags_m (Header cca_msg)) 7 then ''R'' else ''A'')) = None"
      by (auto simp: cca_found cca_bit occupied_mux_table ccr_mux_table)
    from ServeDIAM_unhandled [OF a' k', of no_panics 7
           "\<lparr>Conn = 3, Message = None, Error = IOFault ''reset''\<rparr>"]
         occupied_mux_mailbox
    show ?thesis by blast
  qed
  ultimately show ?thesis by blast
qed

text \<open>
  The multiplexer has no entry under \<open>ALL\<close> nor under \<open>CCA\<close>, the key the answer
  resolves to, and its mailbox holds an earlier report. Dispatching the answer returns
  the multiplexer unchanged: the error channel holds the earlier report alone, whose
  error is not \<open>unhandled message\<close>, and no report for this message can be read from
  it.
\<close>

theorem ServeDIAM_unhandled_occupied_counterexample:
  "mux_m occupied_mux ''ALL'' = None \<and>
   mux_m occupied_mux ''CCA'' = None \<and>
   FindCommand (Dictionary cca_msg) (ApplicationID (Header cca_msg))
     (CommandCode_m (Header cca_msg)) = Inr \<lparr>Short = ''CC''\<rparr> \<and>
   \<not> bit (CommandFlags_m (Header cca_msg)) 7 \<and>
   ServeMux_ServeDIAM no_panics occupied_mux 7 cca_msg = (False, occupied_mux, []) \<and>
   buf (ServeMux_ErrorReports occupied_mux) =
     [\<lparr>Conn = 3, Message = None, Error = IOFault ''reset''\<rparr>] \<and>
   IOFault ''reset'' \<noteq> ErrorsNew ''unhandled message''"
proof -
  have t: "mux_m occupied_mux ''ALL'' = None" "mux_m occupied_mux ''CCA'' = None"
    by (simp_all add: occupied_mux_table ccr_mux_table)
  have "ServeMux_ServeDIAM no_panics occupied_mux 7 cca_msg =
          ServeMux_serve no_panics occupied_mux
            (Short \<lparr>Short = ''CC''\<rparr> @
               (if bit (CommandFlags_m (Header cca_msg)) 7 then ''R'' else ''A''))
            7 cca_msg"
    by (rule ServeMux_ServeDIAM_key [OF cca_found])
  also have "\<dots> = ServeMux_serve no_panics occupied_mux ''CCA'' 7 cca_msg"
    by (simp add: cca_bit)
  also have "\<dots> =
      (False,
       ServeMux_Error occupied_mux
         \<lparr>Conn = 7, Message = Some cca_msg, Error = ErrorsNew ''unhandled message''\<rparr>,
       [])"
    by (rule ServeMux_serve_miss [OF t(2)])
  also have "ServeMux_Error occupied_mux
         \<lparr>Conn = 7, Message = Some cca_msg, Error = ErrorsNew ''unhandled message''\<rparr>
       = occupied_mux"
    using occupied_mux_mailbox by (blast intro: ServeMux_Error_full)
  finally have d: "ServeMux_ServeDIAM no_panics occupied_mux 7 cca_msg = (False, occupied_mux, [])" .
  have b: "buf (ServeMux_ErrorReports occupied_mux) =
     [\<lparr>Conn = 3, Message = None, Error = IOFault ''reset''\<rparr>]"
    using occupied_mux_mailbox by (simp add: ServeMux_ErrorReports_def)
  from t cca_found cca_bit d b show ?thesis by simp
qed

subsection \<open>Registration\<close>

text \<open>
  C9. \<open>Handle\<close> with a nil handler panics with the message \<open>DIAM: nil handler\<close>, under
  any key and in any state of the multiplexer, and leaves the multiplexer as it was:
  the table of entries and the error channel are unchanged.
\<close>

theorem Handle_nil_handler:
  "ServeMux_Handle mux key None = (Inl (Panic ''DIAM: nil handler''), mux) \<and>
   mux_m (snd (ServeMux_Handle mux key None)) = mux_m mux \<and>
   mux_e (snd (ServeMux_Handle mux key None)) = mux_e mux"
  by (simp add: ServeMux_Handle_def)

section \<open>Properties of the connection\<close>

subsection \<open>Writing\<close>

text \<open>
  C10. \<open>response.Write\<close> returns the count 0 whenever it returns an error, be it the
  error of the buffered write or that of the flush, whatever count the buffered write
  reported; a count other than 0 comes with a nil error only, and is then the count of
  the buffered write.
\<close>

theorem response_Write_count:
  "(snd (fst (response_Write c b wres fres)) \<noteq> None \<longrightarrow> fst (fst (response_Write c b wres fres)) = 0) \<and>
   (fst (fst (response_Write c b wres fres)) \<noteq> 0 \<longrightarrow> snd (fst (response_Write c b wres fres)) = None) \<and>
   (snd wres = Some e \<longrightarrow> fst (response_Write c b wres fres) = (0, Some e)) \<and>
   (snd wres = None \<and> fres = Some e \<longrightarrow> fst (response_Write c b wres fres) = (0, Some e)) \<and>
   (snd wres = None \<and> fres = None \<longrightarrow> fst (response_Write c b wres fres) = (fst wres, None))"
  by (cases wres; cases "snd wres"; cases fres) (simp_all add: response_Write_def Let_def)

theorem response_Write_count_witness:
  "fst (response_Write plain_conn [1, 0, 0, 20] (3, Some (IOFault ''broken pipe'')) None)
     = (0, Some (IOFault ''broken pipe'')) \<and>
   fst (response_Write plain_conn [1, 0, 0, 20] (4, None) (Some (IOFault ''broken pipe'')))
     = (0, Some (IOFault ''broken pipe'')) \<and>
   fst (response_Write plain_conn [1, 0, 0, 20] (4, None) None) = (4, None)"
  using response_Write_count [of plain_conn "[1, 0, 0, 20]" "(3, Some (IOFault ''broken pipe''))" None
          "IOFault ''broken pipe''"]
    response_Write_count [of plain_conn "[1, 0, 0, 20]" "(4, None)" "Some (IOFault ''broken pipe'')"
          "IOFault ''broken pipe''"]
    response_Write_count [of plain_conn "[1, 0, 0, 20]" "(4, None)" None EOF]
  by simp

subsection \<open>A failed read in the serving loop\<close>

lemma report_read_error_eof:
  "err = EOF \<or> err = ErrUnexpectedEOF \<Longrightarrow> report_read_error pn c err st = (False, st, [])"
  by (auto simp: report_read_error_def)

lemma report_read_error_mux:
  "err \<noteq> EOF \<Longrightarrow> err \<noteq> ErrUnexpectedEOF \<Longrightarrow>
   (case Handler (server c) of None \<Rightarrow> MuxPtr DefaultServeMux | Some h' \<Rightarrow> h') = MuxPtr a \<Longrightarrow>
   report_read_error pn c err st =
     (False, st(a := ServeMux_Error (st a) \<lparr>Conn = writer c, Message = None, Error = err\<rparr>), [])"
  by (simp add: report_read_error_def Let_def)

lemma report_read_error_user:
  "err \<noteq> EOF \<Longrightarrow> err \<noteq> ErrUnexpectedEOF \<Longrightarrow> Handler (server c) = Some (User u) \<Longrightarrow>
   report_read_error pn c err st =
     (if is_ErrorReporter u
      then (pn (ReportTo u \<lparr>Conn = writer c, Message = None, Error = err\<rparr>), st,
            [ReportTo u \<lparr>Conn = writer c, Message = None, Error = err\<rparr>])
      else (False, st, []))"
  by (simp add: report_read_error_def Let_def)

lemma serve_loop_failure:
  "serve_loop pn c (Inl err # rest) st tr =
     (case report_read_error pn c err st of
        (p, st', evs') \<Rightarrow> Some (p, st', tr @ snd (conn_readMessage c (Inl err)) @ [Close] @ evs'))"
  by (simp add: conn_readMessage_def Let_def)

lemma plain_conn_fields:
  "Handler (server plain_conn) = None" "writer plain_conn = 7"
  "snd (conn_readMessage plain_conn (Inl err)) = []"
  by (simp_all add: plain_conn_def conn_readMessage_def)

text \<open>
  C5. When a read fails in the serving loop, at whatever iteration, the socket is
  closed and the loop ends; \<open>conn.serve\<close> then returns, closing the socket once more on
  its way out. If the error is \<open>io.EOF\<close> or \<open>io.ErrUnexpectedEOF\<close> nothing is reported
  and the store of multiplexers is unchanged. Otherwise, if the server's handler is a
  multiplexer (the default one when the handler is nil) one report is submitted to its
  \<open>Error\<close>, and if it is user code implementing \<open>ErrorReporter\<close> its \<open>Error\<close> is called
  once; the report carries this connection, a nil message and the error of the read.
  User code that does not implement \<open>ErrorReporter\<close> gets no report.
\<close>

theorem serve_loop_read_failure:
  "(err = EOF \<or> err = ErrUnexpectedEOF \<longrightarrow>
      serve_loop pn c (Inl err # rest) st tr =
        Some (False, st, tr @ snd (conn_readMessage c (Inl err)) @ [Close])) \<and>
   (err \<noteq> EOF \<and> err \<noteq> ErrUnexpectedEOF \<and> Handler (server c) = None \<longrightarrow>
      serve_loop pn c (Inl err # rest) st tr =
        Some (False,
              st(DefaultServeMux :=
                   ServeMux_Error (st DefaultServeMux)
                     \<lparr>Conn = writer c, Message = None, Error = err\<rparr>),
              tr @ snd (conn_readMessage c (Inl err)) @ [Close])) \<and>
   (err \<noteq> EOF \<and> err \<noteq> ErrUnexpectedEOF \<and> Handler (server c) = Some (MuxPtr a) \<longrightarrow>
      serve_loop pn c (Inl err # rest) st tr =
        Some (False,
              st(a := ServeMux_Error (st a) \<lparr>Conn = writer c, Message = None, Error = err\<rparr>),
              tr @ snd (conn_readMessage c (Inl err)) @ [Close])) \<and>
   (err \<noteq> EOF \<and> err \<noteq> ErrUnexpectedEOF \<and> Handler (server c) = Some (User u) \<and> is_ErrorReporter u \<longrightarrow>
      serve_loop pn c (Inl err # rest) st tr =
        Some (pn (ReportTo u \<lparr>Conn = writer c, Message = None, Error = err\<rparr>), st,
              tr @ snd (conn_readMessage c (Inl err)) @
              [Close, ReportTo u \<lparr>Conn = writer c, Message = None, Error = err\<rparr>])) \<and>
   (Handler (server c) = Some (User u) \<and> \<not> is_ErrorReporter u \<longrightarrow>
      serve_loop pn c (Inl err # rest) st tr =
        Some (False, st, tr @ snd (conn_readMessage c (Inl err)) @ [Close])) \<and>
   (tls = None \<or> tls = Some None \<longrightarrow>
      (\<exists>st' tr'. conn_serve pn c tls (Inl err # rest) st = Some (st', tr' @ [Close])))"
proof (intro conjI impI)
  assume "err = EOF \<or> err = ErrUnexpectedEOF"
  then show "serve_loop pn c (Inl err # rest) st tr =
        Some (False, st, tr @ snd (conn_readMessage c (Inl err)) @ [Close])"
    by (simp only: serve_loop_failure report_read_error_eof) simp
next
  assume "err \<noteq> EOF \<and> err \<noteq> ErrUnexpectedEOF \<and> Handler (server c) = None"
  then show "serve_loop pn c (Inl err # rest) st tr =
        Some (False,
              st(DefaultServeMux :=
                   ServeMux_Error (st DefaultServeMux)
                     \<lparr>Conn = writer c, Message = None, Error = err\<rparr>),
              tr @ snd (conn_readMessage c (Inl err)) @ [Close])"
    by (simp add: serve_loop_failure report_read_error_mux del: serve_loop.simps)
next
  assume "err \<noteq> EOF \<and> err \<noteq> ErrUnexpectedEOF \<and> Handler (server c) = Some (MuxPtr a)"
  then show "serve_loop pn c (Inl err # rest) st tr =
        Some (False,
              st(a := ServeMux_Error (st a) \<lparr>Conn = writer c, Message = None, Error = err\<rparr>),
              tr @ snd (conn_readMessage c (Inl err)) @ [Close])"
    by (simp add: serve_loop_failure report_read_error_mux del: serve_loop.simps)
next
  assume "err \<noteq> EOF \<and> err \<noteq> ErrUnexpectedEOF \<and> Handler (server c) = Some (User u) \<and> is_ErrorReporter u"
  then show "serve_loop pn c (Inl err # rest) st tr =
        Some (pn (ReportTo u \<lparr>Conn = writer c, Message = None, Error = err\<rparr>), st,
              tr @ snd (conn_readMessage c (Inl err)) @
              [Close, ReportTo u \<lparr>Conn = writer c, Message = None, Error = err\<rparr>])"
    by (simp add: serve_loop_failure report_read_error_user del: serve_loop.simps)
next
  assume h: "Handler (server c) = Some (User u) \<and> \<not> is_ErrorReporter u"
  show "serve_loop pn c (Inl err # rest) st tr =
        Some (False, st, tr @ snd (conn_readMessage c (Inl err)) @ [Close])"
  proof (cases "err = EOF \<or> err = ErrUnexpectedEOF")
    case True
    then show ?thesis
      by (simp only: serve_loop_failure report_read_error_eof) simp
  next
    case False
    with h show ?thesis
      by (simp add: serve_loop_failure report_read_error_user del: serve_loop.simps)
  qed
next
  assume t: "tls = None \<or> tls = Some None"
  obtain p st' evs' where r: "report_read_error pn c err st = (p, st', evs')"
    by (cases "report_read_error pn c err st") auto
  have l: "serve_loop pn c (Inl err # rest) st tr0 =
             Some (p, st', tr0 @ snd (conn_readMessage c (Inl err)) @ [Close] @ evs')" for tr0
    by (simp only: serve_loop_failure r) simp
  let ?tail = "snd (conn_readMessage c (Inl err)) @ [Close] @ evs' @ (if p then [LogPanic] else [])"
  from t have "conn_serve pn c tls (Inl err # rest) st =
      Some (st', ((if tls = None then [] else [Handshake]) @ ?tail) @ [Close])"
  proof
    assume "tls = None"
    then show ?thesis
      by (simp add: conn_serve_def l del: serve_loop.simps)
  next
    assume "tls = Some None"
    then show ?thesis
      by (simp add: conn_serve_def l del: serve_loop.simps)
  qed
  then show "\<exists>st' tr'. conn_serve pn c tls (Inl err # rest) st = Some (st', tr' @ [Close])"
    by blast
qed

theorem serve_loop_read_failure_witness:
  "serve_loop no_panics plain_conn [Inl (IOFault ''reset'')] fresh_store [] =
     Some (False,
           fresh_store(DefaultServeMux :=
             ServeMux_Error (fresh_store DefaultServeMux)
               \<lparr>Conn = 7, Message = None, Error = IOFault ''reset''\<rparr>),
           [Close]) \<and>
   serve_loop no_panics plain_conn [Inl EOF] fresh_store [] = Some (False, fresh_store, [Close])"
proof -
  note a = serve_loop_read_failure
      [of "IOFault ''reset''" no_panics plain_conn "[]" fresh_store "[]" DefaultServeMux "HandlerFunc 1" None]
  note b = serve_loop_read_failure
      [of EOF no_panics plain_conn "[]" fresh_store "[]" DefaultServeMux "HandlerFunc 1" None]
  have "IOFault ''reset'' \<noteq> EOF \<and> IOFault ''reset'' \<noteq> ErrUnexpectedEOF \<and>
        Handler (server plain_conn) = None"
    by (simp add: plain_conn_fields)
  with a have 1: "serve_loop no_panics plain_conn [Inl (IOFault ''reset'')] fresh_store [] =
     Some (False,
           fresh_store(DefaultServeMux :=
             ServeMux_Error (fresh_store DefaultServeMux)
               \<lparr>Conn = writer plain_conn, Message = None, Error = IOFault ''reset''\<rparr>),
           [] @ snd (conn_readMessage plain_conn (Inl (IOFault ''reset''))) @ [Close])"
    by blast
  from b have 2: "serve_loop no_panics plain_conn [Inl EOF] fresh_store [] =
     Some (False, fresh_store, [] @ snd (conn_readMessage plain_conn (Inl EOF)) @ [Close])"
    by blast
  from 1 2 show ?thesis
    by (simp add: plain_conn_fields del: serve_loop.simps)
qed

text \<open>
  The stream ends in the middle of a message: the read fails with
  \<open>io.ErrUnexpectedEOF\<close>, which is not \<open>io.EOF\<close>. The handler is the default
  multiplexer, an \<open>ErrorReporter\<close> whose mailbox is empty; after \<open>conn.serve\<close> it is still
  empty, whereas a connection reset leaves its report there.
\<close>

theorem serve_unexpected_eof_counterexample:
  "ErrUnexpectedEOF \<noteq> EOF \<and>
   Handler (server plain_conn) = None \<and>
   mailbox fresh_store DefaultServeMux = [] \<and>
   observed (conn_serve no_panics plain_conn None [Inl ErrUnexpectedEOF] fresh_store)
     = Some ([], [Close, Close]) \<and>
   observed (conn_serve no_panics plain_conn None [Inl (IOFault ''reset'')] fresh_store)
     = Some ([\<lparr>Conn = 7, Message = None, Error = IOFault ''reset''\<rparr>], [Close, Close])"
  by (simp add: conn_serve_def conn_readMessage_def report_read_error_def plain_conn_def
        fresh_store_def mailbox_def DefaultServeMux_def NewServeMux_def make_chan_def
        ServeMux_Error_def chan_try_send_def)

end
